theory Spec2Isabelle
  imports Main
begin

section \<open>Port ranges (state/ports.go)\<close>

text \<open>
  The Go struct \<^verbatim>\<open>PortRange\<close>. The bounds are Go \<^verbatim>\<open>int\<close>s; the functions below only
  compare them with each other and with constants, and assign the constants 1 and 65535,
  so no arithmetic can wrap and the bounds are modelled as unbounded integers (every
  machine integer is one of them).
\<close>

record PortRange =
  UnitName :: string
  FromPort :: int
  ToPort :: int
  Protocol :: string

text \<open>
  Errors are values. Each constructor stands for one \<^verbatim>\<open>errors.Errorf\<close> (or
  \<^verbatim>\<open>errors.NotValidf\<close>) call of the source and carries the arguments of its format
  string. A Go \<^verbatim>\<open>error\<close> result is an \<open>error option\<close>, with \<open>None\<close> for \<^verbatim>\<open>nil\<close>.
\<close>

datatype error =
    InvalidProtocol string
  | InvalidUnit string
  | IcmpNoPorts int
  | InvalidPortRange int int
  | PortBoundsOutOfRange int int
  | PortRangesConflict PortRange PortRange
  | NotValidKey string
  | PortsNotFound string string
  | SubnetNotFound string
  | SubnetNotAlive string
  | ModelNotActive
  | ErrNoOperations
  | ErrExcessiveContention
  | CannotOpenPorts PortRange error
  | CannotClosePorts PortRange error
  | MachinesWatcherClosed
  | ErrDying
  | WorkerError string

text \<open>
  \<^verbatim>\<open>strings.ToLower\<close> of the Go standard library, on the bytes of a string (a Go
  string is its UTF-8 bytes). It first scans the string: \<^verbatim>\<open>isASCII\<close> holds when every
  byte is below \<^verbatim>\<open>utf8.RuneSelf\<close> (0x80), \<^verbatim>\<open>hasUpper\<close> when a byte is one of the
  letters A to Z. An ASCII string without such a letter is returned as it is; in an ASCII
  string with one, the letters A to Z move to a to z (\<^verbatim>\<open>c += 'a' - 'A'\<close>) and every
  other byte stays. A string with a byte from 0x80 on goes to
  \<^verbatim>\<open>strings.Map(unicode.ToLower, s)\<close>, which decodes the runes and maps each one by
  the case tables of the package unicode (so the two bytes of U+0130 become the one byte
  \<^verbatim>\<open>i\<close>). Those tables are not part of these sources: that function is the parameter
  \<open>mapUnicodeToLower\<close>, and every result below holds for any such function.
\<close>

definition lowerByte :: "char \<Rightarrow> char" where
  "lowerByte c =
     (let n = (of_char c :: nat)
      in if 65 \<le> n \<and> n \<le> 90 then char_of (n + 32) else c)"

definition isASCII :: "string \<Rightarrow> bool" where
  "isASCII s = list_all (\<lambda>c. (of_char c :: nat) < 128) s"

definition hasUpper :: "string \<Rightarrow> bool" where
  "hasUpper s = list_ex (\<lambda>c. 65 \<le> (of_char c :: nat) \<and> (of_char c :: nat) \<le> 90) s"

definition ToLower :: "(string \<Rightarrow> string) \<Rightarrow> string \<Rightarrow> string" where
  "ToLower mapUnicodeToLower s =
     (if isASCII s then (if \<not> hasUpper s then s else map lowerByte s)
      else mapUnicodeToLower s)"

text \<open>
  \<^verbatim>\<open>PortRange.Validate\<close>. \<^verbatim>\<open>names.IsValidUnit\<close> belongs to the package
  gopkg.in/juju/names.v3, which is not part of these sources: it is the parameter
  \<open>isValidUnit\<close>, and every result below holds for any such predicate.
\<close>

definition Validate ::
  "(string \<Rightarrow> string) \<Rightarrow> (string \<Rightarrow> bool) \<Rightarrow> PortRange \<Rightarrow> error option" where
  "Validate mapUnicodeToLower isValidUnit p =
     (let proto = ToLower mapUnicodeToLower (Protocol p)
      in if proto \<noteq> ''tcp'' \<and> proto \<noteq> ''udp'' \<and> proto \<noteq> ''icmp''
           then Some (InvalidProtocol proto)
         else if \<not> isValidUnit (UnitName p)
           then Some (InvalidUnit (UnitName p))
         else if proto = ''icmp''
           then (if FromPort p = ToPort p \<and> FromPort p = - 1
                   then None
                 else Some (IcmpNoPorts (FromPort p)))
         else if FromPort p > ToPort p
           then Some (InvalidPortRange (FromPort p) (ToPort p))
         else if FromPort p \<le> 0 \<or> FromPort p > 65535 \<or> ToPort p \<le> 0 \<or> ToPort p > 65535
           then Some (PortBoundsOutOfRange (FromPort p) (ToPort p))
         else None)"

text \<open>
  \<^verbatim>\<open>PortRange.SanitizeBounds\<close>. The loop of the source runs over the two pointers
  \<^verbatim>\<open>&b.FromPort\<close> and \<^verbatim>\<open>&b.ToPort\<close> and applies the same \<^verbatim>\<open>switch\<close> to each;
  \<open>sanitizeBound\<close> is that \<^verbatim>\<open>switch\<close>.
\<close>

definition sanitizeBound :: "int \<Rightarrow> int" where
  "sanitizeBound bound =
     (if bound \<le> 0 then 1 else if bound > 65535 then 65535 else bound)"

definition SanitizeBounds :: "PortRange \<Rightarrow> PortRange" where
  "SanitizeBounds a =
     (let b = a
      in if Protocol a = ''icmp'' then b
         else let b = (if FromPort b > ToPort b
                         then b\<lparr>FromPort := ToPort b, ToPort := FromPort b\<rparr>
                       else b)
              in b\<lparr>FromPort := sanitizeBound (FromPort b),
                    ToPort := sanitizeBound (ToPort b)\<rparr>)"

text \<open>
  \<^verbatim>\<open>PortRange.CheckConflicts\<close>. The comparison \<^verbatim>\<open>prA == prB\<close> of two Go structs is
  equality of all four fields, which is equality of records; the protocols are compared
  as the fields hold them, without \<^verbatim>\<open>ToLower\<close>.
\<close>

definition CheckConflicts ::
  "(string \<Rightarrow> string) \<Rightarrow> (string \<Rightarrow> bool) \<Rightarrow> PortRange \<Rightarrow> PortRange \<Rightarrow> error option" where
  "CheckConflicts mapUnicodeToLower isValidUnit prA prB =
     (case Validate mapUnicodeToLower isValidUnit prA of
        Some err \<Rightarrow> Some err
      | None \<Rightarrow>
     (case Validate mapUnicodeToLower isValidUnit prB of
        Some err \<Rightarrow> Some err
      | None \<Rightarrow>
        if prA = prB then None
        else if Protocol prA \<noteq> Protocol prB then None
        else if ToPort prA \<ge> FromPort prB \<and> ToPort prB \<ge> FromPort prA
          then Some (PortRangesConflict prA prB)
        else None))"

section \<open>Ports document keys\<close>

text \<open>\<^verbatim>\<open>portsGlobalKey\<close>: \<^verbatim>\<open>fmt.Sprintf("m#%s#%s", machineID, subnetID)\<close>.\<close>

definition portsGlobalKey :: "string \<Rightarrow> string \<Rightarrow> string" where
  "portsGlobalKey machineID subnetID = ''m#'' @ machineID @ ''#'' @ subnetID"

text \<open>
  \<^verbatim>\<open>portsIDRe\<close> is the regular expression
  \<^verbatim>\<open>m#(?P<machine>MachineSnippet)#(?P<subnet>.*)$\<close>. It has no \<^verbatim>\<open>^\<close>, so a match may
  start anywhere in the text; \<^verbatim>\<open>.\<close> matches every character but the newline, and
  \<^verbatim>\<open>$\<close> (no \<^verbatim>\<open>m\<close> flag) only the end of the text. The constant
  \<^verbatim>\<open>names.MachineSnippet\<close> is declared in gopkg.in/juju/names.v3, outside these
  sources: the set of strings it matches is the parameter \<open>MachineSnippet\<close>. A machine
  id holds no \<^verbatim>\<open>#\<close>, so the machine group can only be the text between the prefix
  and the next \<^verbatim>\<open>#\<close>; this is the one assumption made on the parameter.

  \<open>matchPortsIDReAt\<close> is a match that starts at the head of the text, with the three
  elements \<^verbatim>\<open>FindStringSubmatch\<close> returns: the whole match and the two groups.
\<close>

definition matchPortsIDReAt :: "(string \<Rightarrow> bool) \<Rightarrow> string \<Rightarrow> string list option" where
  "matchPortsIDReAt MachineSnippet text =
     (if take 2 text = ''m#'' then
        (let rest = drop 2 text;
             machine = takeWhile (\<lambda>c. c \<noteq> CHR ''#'') rest
         in case dropWhile (\<lambda>c. c \<noteq> CHR ''#'') rest of
              [] \<Rightarrow> None
            | _ # subnet \<Rightarrow>
                if MachineSnippet machine \<and> CHR 0x0A \<notin> set subnet
                  then Some [text, machine, subnet]
                else None)
      else None)"

text \<open>\<^verbatim>\<open>portsIDRe.FindStringSubmatch\<close>: the leftmost match, \<open>None\<close> for \<^verbatim>\<open>nil\<close>.\<close>

fun FindStringSubmatch :: "(string \<Rightarrow> bool) \<Rightarrow> string \<Rightarrow> string list option" where
  "FindStringSubmatch MachineSnippet [] = matchPortsIDReAt MachineSnippet []"
| "FindStringSubmatch MachineSnippet (c # cs) =
     (case matchPortsIDReAt MachineSnippet (c # cs) of
        Some parts \<Rightarrow> Some parts
      | None \<Rightarrow> FindStringSubmatch MachineSnippet cs)"

text \<open>\<^verbatim>\<open>extractPortsIDParts\<close>; the length of \<^verbatim>\<open>nil\<close> is 0.\<close>

definition extractPortsIDParts :: "(string \<Rightarrow> bool) \<Rightarrow> string \<Rightarrow> error + string list" where
  "extractPortsIDParts MachineSnippet globalKey =
     (case FindStringSubmatch MachineSnippet globalKey of
        Some parts \<Rightarrow>
          if length parts = 3 then Inr parts else Inl (NotValidKey globalKey)
      | None \<Rightarrow> Inl (NotValidKey globalKey))"

section \<open>Ports documents and the store\<close>

text \<open>
  The struct \<^verbatim>\<open>portsDoc\<close>. \<^verbatim>\<open>TxnRevno\<close> is an \<^verbatim>\<open>int64\<close> that the functions under
  study only copy and compare.
\<close>

record portsDoc =
  DocID :: string
  ModelUUID :: string
  MachineID :: string
  SubnetID :: string
  Ports :: "PortRange list"
  TxnRevno :: int

text \<open>
  \<^verbatim>\<open>*State\<close> is the handle on the database. Its type is declared outside these sources;
  the model splits it into what a call reads from the handle itself (this record: the
  result of \<^verbatim>\<open>st.ModelUUID()\<close>, the function \<^verbatim>\<open>st.docID\<close>, and the bound of the
  transaction runner) and the content of the database (the record \<open>store\<close> below), which
  every operation takes and returns.
\<close>

record State =
  stModelUUID :: string
  docID :: "string \<Rightarrow> string"
  maxRetries :: nat

text \<open>The struct \<^verbatim>\<open>Ports\<close>: \<open>areNew\<close> is true for documents not in state yet.\<close>

record Ports =
  st :: State
  doc :: portsDoc
  areNew :: bool

datatype Life = Alive | Dying | Dead

record subnetDoc =
  subnetLife :: Life
  subnetCIDR :: string

text \<open>
  Modelled from the spec: the document store (mgo and mgo/txn, outside these sources),
  as the interface the spec gives it: \<open>find(key)\<close> returns a document or not-found, and
  a list of operations is applied as one all-or-nothing unit when every precondition
  holds. The store keeps the collections the operations of this file name; for the model,
  machine, subnet and unit collections it keeps only what their preconditions read. The
  store of the model is always reachable: the branches of the source for input/output
  failures of the database are not taken.
\<close>

record store =
  modelActive :: bool
  machinesColl :: "string \<rightharpoonup> Life"
  subnetsColl :: "string \<rightharpoonup> subnetDoc"
  unitsColl :: "string \<rightharpoonup> Life"
  openedPorts :: "string \<rightharpoonup> portsDoc"

datatype collection = modelsC | machinesC | subnetsC | unitsC | openedPortsC

text \<open>
  The preconditions of the source: \<^verbatim>\<open>txn.DocMissing\<close>, \<^verbatim>\<open>txn.DocExists\<close>,
  \<^verbatim>\<open>notDeadDoc\<close>, \<^verbatim>\<open>bson.D{{"txn-revno", n}}\<close> and the one of
  \<^verbatim>\<open>assertModelActiveOp\<close>.
\<close>

datatype assertion = DocMissing | DocExists | notDeadDoc | TxnRevnoIs int | modelActiveDoc

text \<open>
  The mutations of the source: none, \<^verbatim>\<open>Insert\<close>, \<^verbatim>\<open>Update\<close> with
  \<^verbatim>\<open>$addToSet\<close> or \<^verbatim>\<open>$set\<close> on the field \<^verbatim>\<open>ports\<close>, and \<^verbatim>\<open>Remove\<close>.
\<close>

datatype change =
    NoChange
  | Insert portsDoc
  | UpdateAddToSetPorts PortRange
  | UpdateSetPorts "PortRange list"
  | Remove

text \<open>
  \<^verbatim>\<open>txn.Op\<close>, with the fields \<^verbatim>\<open>C\<close>, \<^verbatim>\<open>Id\<close>, \<^verbatim>\<open>Assert\<close> and the one of
  \<^verbatim>\<open>Insert\<close>, \<^verbatim>\<open>Update\<close>, \<^verbatim>\<open>Remove\<close> that is set.
\<close>

record Op =
  opC :: collection
  opId :: string
  opAssert :: assertion
  opChange :: change

text \<open>
  Modelled from the spec: the preconditions the store supports, evaluated on its content:
  "document must not exist", "document must exist", "entity must not be in a terminal
  lifecycle state", "document must match an exact revision token", and the operable
  state of the model.
\<close>

definition lifeOf :: "store \<Rightarrow> collection \<Rightarrow> string \<Rightarrow> Life option" where
  "lifeOf s c i =
     (case c of
        machinesC \<Rightarrow> machinesColl s i
      | subnetsC \<Rightarrow> map_option subnetLife (subnetsColl s i)
      | unitsC \<Rightarrow> unitsColl s i
      | modelsC \<Rightarrow> None
      | openedPortsC \<Rightarrow> None)"

definition docExists :: "store \<Rightarrow> collection \<Rightarrow> string \<Rightarrow> bool" where
  "docExists s c i =
     (case c of
        openedPortsC \<Rightarrow> openedPorts s i \<noteq> None
      | modelsC \<Rightarrow> True
      | _ \<Rightarrow> lifeOf s c i \<noteq> None)"

definition assertHolds :: "store \<Rightarrow> Op \<Rightarrow> bool" where
  "assertHolds s op =
     (case opAssert op of
        DocMissing \<Rightarrow> \<not> docExists s (opC op) (opId op)
      | DocExists \<Rightarrow> docExists s (opC op) (opId op)
      | notDeadDoc \<Rightarrow>
          (case lifeOf s (opC op) (opId op) of None \<Rightarrow> False | Some l \<Rightarrow> l \<noteq> Dead)
      | TxnRevnoIs n \<Rightarrow>
          (case openedPorts s (opId op) of
             None \<Rightarrow> False
           | Some d \<Rightarrow> opC op = openedPortsC \<and> TxnRevno d = n)
      | modelActiveDoc \<Rightarrow> modelActive s)"

text \<open>
  Modelled from the spec: the mutations of the store. A mutation changes the opened-ports
  collection only (no operation of this file mutates another one). Every insert and
  update moves the revision of the stored document on, which is what makes a revision
  precondition of a racing writer fail.
\<close>

definition applyChange :: "store \<Rightarrow> Op \<Rightarrow> store" where
  "applyChange s op =
     (if opC op \<noteq> openedPortsC then s
      else case opChange op of
        NoChange \<Rightarrow> s
      | Insert d \<Rightarrow>
          s\<lparr>openedPorts := (openedPorts s)(opId op \<mapsto> d\<lparr>TxnRevno := TxnRevno d + 1\<rparr>)\<rparr>
      | UpdateAddToSetPorts r \<Rightarrow>
          (case openedPorts s (opId op) of
             None \<Rightarrow> s
           | Some d \<Rightarrow>
               s\<lparr>openedPorts := (openedPorts s)(opId op \<mapsto>
                   d\<lparr>Ports := (if r \<in> set (Ports d) then Ports d else Ports d @ [r]),
                     TxnRevno := TxnRevno d + 1\<rparr>)\<rparr>)
      | UpdateSetPorts rs \<Rightarrow>
          (case openedPorts s (opId op) of
             None \<Rightarrow> s
           | Some d \<Rightarrow>
               s\<lparr>openedPorts := (openedPorts s)(opId op \<mapsto>
                   d\<lparr>Ports := rs, TxnRevno := TxnRevno d + 1\<rparr>)\<rparr>)
      | Remove \<Rightarrow> s\<lparr>openedPorts := (openedPorts s)(opId op := None)\<rparr>)"

text \<open>
  Modelled from the spec: running one operation list as an all-or-nothing unit.
  \<open>None\<close> is \<^verbatim>\<open>txn.ErrAborted\<close>: a precondition does not hold and nothing is applied.
\<close>

definition RunTransaction :: "Op list \<Rightarrow> store \<Rightarrow> store option" where
  "RunTransaction ops s =
     (if list_all (assertHolds s) ops then Some (foldl applyChange s ops) else None)"

text \<open>
  Modelled from the spec: the transaction runner \<^verbatim>\<open>p.st.db().Run\<close> (package
  github.com/juju/txn, outside these sources). It runs attempt 0 at once; an error of
  the builder ends the run, the sentinel \<^verbatim>\<open>ErrNoOperations\<close> as a success with nothing
  submitted; when the store rejects the list because a precondition fails, the builder
  is called again with the next attempt number, up to a bound, after which the run ends
  with \<^verbatim>\<open>ErrExcessiveContention\<close>. The builder is a closure over variables of its
  caller: \<open>'l\<close> is the type of those it assigns, passed in and out of every attempt.
  No other writer runs between two attempts of the model.
\<close>

fun runAttempts ::
  "nat \<Rightarrow> nat \<Rightarrow> (nat \<Rightarrow> store \<Rightarrow> 'l \<Rightarrow> (error + Op list) \<times> 'l) \<Rightarrow> store \<Rightarrow> 'l
     \<Rightarrow> error option \<times> store \<times> 'l" where
  "runAttempts 0 attempt buildTxn s l = (Some ErrExcessiveContention, s, l)"
| "runAttempts (Suc n) attempt buildTxn s l =
     (case buildTxn attempt s l of
        (Inl err, l') \<Rightarrow>
          if err = ErrNoOperations then (None, s, l') else (Some err, s, l')
      | (Inr ops, l') \<Rightarrow>
          (case RunTransaction ops s of
             Some s' \<Rightarrow> (None, s', l')
           | None \<Rightarrow> runAttempts n (Suc attempt) buildTxn s l'))"

definition Run ::
  "State \<Rightarrow> (nat \<Rightarrow> store \<Rightarrow> 'l \<Rightarrow> (error + Op list) \<times> 'l) \<Rightarrow> store \<Rightarrow> 'l
     \<Rightarrow> error option \<times> store \<times> 'l" where
  "Run state buildTxn s l = runAttempts (Suc (maxRetries state)) 0 buildTxn s l"

text \<open>
  Modelled from the spec: \<^verbatim>\<open>checkModelActive\<close>, \<^verbatim>\<open>assertModelActiveOp\<close> and
  \<^verbatim>\<open>st.SubnetByID\<close> (package state, files outside these sources): the model must be in
  an operable lifecycle state, as a read and as a precondition, and a subnet is found by
  its id or is not found.
\<close>

definition checkModelActive :: "store \<Rightarrow> error option" where
  "checkModelActive s = (if modelActive s then None else Some ModelNotActive)"

definition assertModelActiveOp :: "string \<Rightarrow> Op" where
  "assertModelActiveOp uuid =
     \<lparr>opC = modelsC, opId = uuid, opAssert = modelActiveDoc, opChange = NoChange\<rparr>"

definition SubnetByID :: "store \<Rightarrow> State \<Rightarrow> string \<Rightarrow> error + subnetDoc" where
  "SubnetByID s state i =
     (case subnetsColl s (docID state i) of
        None \<Rightarrow> Inl (SubnetNotFound i)
      | Some subnet \<Rightarrow> Inr subnet)"

text \<open>\<^verbatim>\<open>errors.IsNotFound\<close> on the errors of this file.\<close>

fun IsNotFound :: "error \<Rightarrow> bool" where
  "IsNotFound (PortsNotFound m n) = True"
| "IsNotFound (SubnetNotFound i) = True"
| "IsNotFound err = False"

text \<open>\<^verbatim>\<open>Ports.verifySubnetAliveWhenSet\<close>.\<close>

definition verifySubnetAliveWhenSet :: "store \<Rightarrow> Ports \<Rightarrow> error option" where
  "verifySubnetAliveWhenSet s p =
     (if SubnetID (doc p) = [] then None
      else case SubnetByID s (st p) (SubnetID (doc p)) of
        Inl err \<Rightarrow> Some err
      | Inr subnet \<Rightarrow>
          if subnetLife subnet \<noteq> Alive then Some (SubnetNotAlive (subnetCIDR subnet))
          else None)"

text \<open>
  \<^verbatim>\<open>Ports.Refresh\<close>: the document is read again into \<^verbatim>\<open>p.doc\<close>; the error names the
  machine and the subnet, as \<^verbatim>\<open>p.String()\<close> does.
\<close>

definition Refresh :: "store \<Rightarrow> Ports \<Rightarrow> error option \<times> Ports" where
  "Refresh s p =
     (case openedPorts s (DocID (doc p)) of
        None \<Rightarrow> (Some (PortsNotFound (MachineID (doc p)) (SubnetID (doc p))), p)
      | Some d \<Rightarrow> (None, p\<lparr>doc := d\<rparr>))"

text \<open>The builders of operation lists.\<close>

definition assertMachineNotDeadAndSubnetNotDeadWhenSetOps :: "State \<Rightarrow> portsDoc \<Rightarrow> Op list" where
  "assertMachineNotDeadAndSubnetNotDeadWhenSetOps state pDoc =
     (let ops = [\<lparr>opC = machinesC, opId = docID state (MachineID pDoc),
                  opAssert = notDeadDoc, opChange = NoChange\<rparr>]
      in if SubnetID pDoc \<noteq> []
           then ops @ [\<lparr>opC = subnetsC, opId = docID state (SubnetID pDoc),
                        opAssert = notDeadDoc, opChange = NoChange\<rparr>]
         else ops)"

text \<open>
  \<^verbatim>\<open>addPortsDocOps\<close> assigns \<^verbatim>\<open>pDoc.Ports\<close> through its pointer argument: the
  document it leaves is the second component of the result, and it is the one inserted.
\<close>

definition addPortsDocOps ::
  "State \<Rightarrow> portsDoc \<Rightarrow> assertion \<Rightarrow> PortRange list \<Rightarrow> Op list \<times> portsDoc" where
  "addPortsDocOps state pDoc portsAssert ports =
     (let pDoc = pDoc\<lparr>Ports := ports\<rparr>;
          ops = assertMachineNotDeadAndSubnetNotDeadWhenSetOps state pDoc
      in (ops @ [\<lparr>opC = openedPortsC, opId = DocID pDoc,
                  opAssert = portsAssert, opChange = Insert pDoc\<rparr>], pDoc))"

definition updatePortsDocOps ::
  "State \<Rightarrow> portsDoc \<Rightarrow> assertion \<Rightarrow> PortRange \<Rightarrow> Op list" where
  "updatePortsDocOps state pDoc portsAssert portRange =
     (let ops = assertMachineNotDeadAndSubnetNotDeadWhenSetOps state pDoc
      in ops @ [\<lparr>opC = unitsC, opId = docID state (UnitName portRange),
                 opAssert = notDeadDoc, opChange = NoChange\<rparr>,
                \<lparr>opC = openedPortsC, opId = DocID pDoc,
                 opAssert = portsAssert, opChange = UpdateAddToSetPorts portRange\<rparr>])"

definition setPortsDocOps ::
  "State \<Rightarrow> portsDoc \<Rightarrow> assertion \<Rightarrow> PortRange list \<Rightarrow> Op list" where
  "setPortsDocOps state pDoc portsAssert ports =
     (let ops = assertMachineNotDeadAndSubnetNotDeadWhenSetOps state pDoc
      in ops @ [\<lparr>opC = openedPortsC, opId = DocID pDoc,
                 opAssert = portsAssert, opChange = UpdateSetPorts ports\<rparr>])"

definition removeOps :: "Ports \<Rightarrow> Op list" where
  "removeOps p =
     [\<lparr>opC = openedPortsC, opId = DocID (doc p), opAssert = DocExists, opChange = Remove\<rparr>]"

section \<open>Opening and closing port ranges\<close>

text \<open>
  The loop of \<^verbatim>\<open>OpenPorts\<close> over \<^verbatim>\<open>p.doc.Ports\<close>: \<open>Some err\<close> is the
  \<^verbatim>\<open>return nil, err\<close> it takes (the conflict, or \<^verbatim>\<open>ErrNoOperations\<close> for the same
  range), \<open>None\<close> the end of the list.
\<close>

fun openPortsExisting ::
  "(string \<Rightarrow> string) \<Rightarrow> (string \<Rightarrow> bool) \<Rightarrow> PortRange \<Rightarrow> PortRange list
     \<Rightarrow> error option" where
  "openPortsExisting mapUnicodeToLower isValidUnit portRange [] = None"
| "openPortsExisting mapUnicodeToLower isValidUnit portRange (existingPorts # rest) =
     (case CheckConflicts mapUnicodeToLower isValidUnit existingPorts portRange of
        Some err \<Rightarrow> Some err
      | None \<Rightarrow>
          if existingPorts = portRange then Some ErrNoOperations
          else openPortsExisting mapUnicodeToLower isValidUnit portRange rest)"

text \<open>
  The block \<^verbatim>\<open>if attempt > 0\<close> of the builder of \<^verbatim>\<open>OpenPorts\<close>; it reads the
  receiver \<open>p\<close> and assigns the local copy \<open>ports\<close>.
\<close>

definition openPortsRetry :: "store \<Rightarrow> Ports \<Rightarrow> Ports \<Rightarrow> error + Ports" where
  "openPortsRetry s p ports =
     (case checkModelActive s of
        Some err \<Rightarrow> Inl err
      | None \<Rightarrow>
     (case verifySubnetAliveWhenSet s p of
        Some err \<Rightarrow> Inl err
      | None \<Rightarrow>
     (case Refresh s ports of
        (Some err, ports) \<Rightarrow>
          if IsNotFound err
            then Inr (if \<not> areNew ports then ports\<lparr>areNew := True\<rparr> else ports)
          else Inl err
      | (None, ports) \<Rightarrow>
          Inr (if areNew ports then ports\<lparr>areNew := False\<rparr> else ports))))"

text \<open>
  The closure \<^verbatim>\<open>buildTxn\<close> of \<^verbatim>\<open>OpenPorts\<close>. The conflicts are looked for in
  \<^verbatim>\<open>p.doc.Ports\<close>, the list of the receiver; the operations are built from the local
  copy \<open>ports\<close>.
\<close>

definition openPortsBuildTxn ::
  "(string \<Rightarrow> string) \<Rightarrow> (string \<Rightarrow> bool) \<Rightarrow> Ports \<Rightarrow> PortRange \<Rightarrow> nat \<Rightarrow> store \<Rightarrow> Ports
     \<Rightarrow> (error + Op list) \<times> Ports" where
  "openPortsBuildTxn mapUnicodeToLower isValidUnit p portRange attempt s ports =
     (case (if attempt > 0 then openPortsRetry s p ports else Inr ports) of
        Inl err \<Rightarrow> (Inl err, ports)
      | Inr ports \<Rightarrow>
     (case openPortsExisting mapUnicodeToLower isValidUnit portRange (Ports (doc p)) of
        Some err \<Rightarrow> (Inl err, ports)
      | None \<Rightarrow>
          (let ops = [assertModelActiveOp (stModelUUID (st p))]
           in if areNew ports
                then (case addPortsDocOps (st p) (doc ports) DocMissing [portRange] of
                        (addOps, pDoc) \<Rightarrow> (Inr (ops @ addOps), ports\<lparr>doc := pDoc\<rparr>))
              else (Inr (ops @ updatePortsDocOps (st p) (doc ports)
                                 (TxnRevnoIs (TxnRevno (doc ports))) portRange), ports))))"

text \<open>
  \<^verbatim>\<open>Ports.OpenPorts\<close>. The result is the error, the receiver as the call leaves it, and
  the store. \<^verbatim>\<open>errors.DeferredAnnotatef\<close> wraps every error returned.
\<close>

definition OpenPorts ::
  "(string \<Rightarrow> string) \<Rightarrow> (string \<Rightarrow> bool) \<Rightarrow> Ports \<Rightarrow> PortRange \<Rightarrow> store \<Rightarrow> error option \<times> Ports \<times> store" where
  "OpenPorts mapUnicodeToLower isValidUnit p portRange s =
     (case Validate mapUnicodeToLower isValidUnit portRange of
        Some err \<Rightarrow> (Some (CannotOpenPorts portRange err), p, s)
      | None \<Rightarrow>
          (let ports = \<lparr>st = st p, doc = doc p, areNew = areNew p\<rparr>
           in case Run (st p) (openPortsBuildTxn mapUnicodeToLower isValidUnit p portRange) s ports of
                (Some err, s', ports') \<Rightarrow> (Some (CannotOpenPorts portRange err), p, s')
              | (None, s', ports') \<Rightarrow>
                  (None,
                   p\<lparr>areNew := False,
                     doc := (doc p)\<lparr>Ports := Ports (doc p) @ [portRange]\<rparr>\<rparr>,
                   s')))"

text \<open>
  The loop of \<^verbatim>\<open>ClosePorts\<close> over \<^verbatim>\<open>ports.doc.Ports\<close>, with the variables
  \<^verbatim>\<open>found\<close> and \<^verbatim>\<open>newPorts\<close> it assigns; the first component is the error of an
  early return.
\<close>

fun closePortsExisting ::
  "(string \<Rightarrow> string) \<Rightarrow> (string \<Rightarrow> bool) \<Rightarrow> PortRange \<Rightarrow> PortRange list \<Rightarrow> bool \<Rightarrow> PortRange list
     \<Rightarrow> error option \<times> bool \<times> PortRange list" where
  "closePortsExisting mapUnicodeToLower isValidUnit portRange [] found newPorts = (None, found, newPorts)"
| "closePortsExisting mapUnicodeToLower isValidUnit portRange (existingPortsDef # rest) found newPorts =
     (if existingPortsDef = portRange
        then closePortsExisting mapUnicodeToLower isValidUnit portRange rest True newPorts
      else case CheckConflicts mapUnicodeToLower isValidUnit existingPortsDef portRange of
        Some err \<Rightarrow>
          if UnitName existingPortsDef = UnitName portRange then (Some err, found, newPorts)
          else closePortsExisting mapUnicodeToLower isValidUnit portRange rest found (newPorts @ [existingPortsDef])
      | None \<Rightarrow>
          closePortsExisting mapUnicodeToLower isValidUnit portRange rest found (newPorts @ [existingPortsDef]))"

text \<open>The block \<^verbatim>\<open>if attempt > 0\<close> of the builder of \<^verbatim>\<open>ClosePorts\<close>.\<close>

definition closePortsRetry :: "store \<Rightarrow> Ports \<Rightarrow> Ports \<Rightarrow> error + Ports" where
  "closePortsRetry s p ports =
     (case verifySubnetAliveWhenSet s p of
        Some err \<Rightarrow> Inl err
      | None \<Rightarrow>
     (case Refresh s ports of
        (Some err, ports) \<Rightarrow> if IsNotFound err then Inl ErrNoOperations else Inl err
      | (None, ports) \<Rightarrow> Inr ports))"

text \<open>
  The closure \<^verbatim>\<open>buildTxn\<close> of \<^verbatim>\<open>ClosePorts\<close>; the variables it assigns are the local
  copy \<open>ports\<close> and the slice \<open>newPorts\<close>.
\<close>

definition closePortsBuildTxn ::
  "(string \<Rightarrow> string) \<Rightarrow> (string \<Rightarrow> bool) \<Rightarrow> Ports \<Rightarrow> PortRange \<Rightarrow> nat \<Rightarrow> store \<Rightarrow> Ports \<times> PortRange list
     \<Rightarrow> (error + Op list) \<times> Ports \<times> PortRange list" where
  "closePortsBuildTxn mapUnicodeToLower isValidUnit p portRange attempt s l =
     (case l of (ports, newPorts) \<Rightarrow>
     (case (if attempt > 0 then closePortsRetry s p ports else Inr ports) of
        Inl err \<Rightarrow> (Inl err, ports, newPorts)
      | Inr ports \<Rightarrow>
     (case closePortsExisting mapUnicodeToLower isValidUnit portRange (Ports (doc ports)) False [] of
        (Some err, found, newPorts) \<Rightarrow> (Inl err, ports, newPorts)
      | (None, found, newPorts) \<Rightarrow>
          if \<not> found then (Inl ErrNoOperations, ports, newPorts)
          else if length newPorts = 0 then (Inr (removeOps p), ports, newPorts)
          else (Inr (setPortsDocOps (st p) (doc ports)
                       (TxnRevnoIs (TxnRevno (doc ports))) newPorts), ports, newPorts))))"

text \<open>\<^verbatim>\<open>Ports.ClosePorts\<close>.\<close>

definition ClosePorts ::
  "(string \<Rightarrow> string) \<Rightarrow> (string \<Rightarrow> bool) \<Rightarrow> Ports \<Rightarrow> PortRange \<Rightarrow> store \<Rightarrow> error option \<times> Ports \<times> store" where
  "ClosePorts mapUnicodeToLower isValidUnit p portRange s =
     (case Validate mapUnicodeToLower isValidUnit portRange of
        Some err \<Rightarrow> (Some (CannotClosePorts portRange err), p, s)
      | None \<Rightarrow>
          (let newPorts = [];
               ports = \<lparr>st = st p, doc = doc p, areNew = areNew p\<rparr>
           in case Run (st p) (closePortsBuildTxn mapUnicodeToLower isValidUnit p portRange) s (ports, newPorts) of
                (Some err, s', l) \<Rightarrow> (Some (CannotClosePorts portRange err), p, s')
              | (None, s', ports', newPorts') \<Rightarrow>
                  (None, p\<lparr>doc := (doc p)\<lparr>Ports := newPorts'\<rparr>\<rparr>, s')))"

section \<open>The instance mutater worker (worker/instancemutater/worker.go)\<close>

text \<open>
  \<^verbatim>\<open>names.MachineTag\<close> and the part of the struct \<^verbatim>\<open>mutater\<close> that the loop touches: the
  registry \<^verbatim>\<open>machines\<close>, a map from tags to channels (a channel is kept as \<open>unit\<close>).
\<close>

datatype MachineTag = NewMachineTag string

record mutater =
  machines :: "MachineTag \<rightharpoonup> unit"

text \<open>
  One round of the \<^verbatim>\<open>select\<close> of \<^verbatim>\<open>mutaterWorker.loop\<close> takes one of three
  communications: the dying channel of the context, a receive on the watcher's
  \<^verbatim>\<open>Changes()\<close> channel (\<open>Some ids\<close> for a batch, \<open>None\<close> for the not-ok receive of a
  closed channel), or a receive on \<^verbatim>\<open>machineDead\<close>. The run of a loop is the sequence
  of the communications its rounds take.
\<close>

datatype event =
    ContextDying
  | WatcherChanges "string list option"
  | MachineDead MachineTag

text \<open>
  \<^verbatim>\<open>mutaterWorker.loop\<close> on a sequence of communications. \<^verbatim>\<open>m.startMachines\<close> (file
  mutater.go, outside these sources) and the value of \<^verbatim>\<open>m.context.errDying()\<close> are
  parameters. The result is \<open>Some err\<close> when the loop returns \<^verbatim>\<open>err\<close>, and \<open>None\<close>
  when it has not returned after the last communication given: it then blocks in the
  \<^verbatim>\<open>select\<close>.
\<close>

fun loop ::
  "(MachineTag list \<Rightarrow> mutater \<Rightarrow> error option \<times> mutater) \<Rightarrow> error option
     \<Rightarrow> event list \<Rightarrow> mutater \<Rightarrow> error option option" where
  "loop startMachines errDying [] m = None"
| "loop startMachines errDying (ContextDying # evs) m = Some errDying"
| "loop startMachines errDying (WatcherChanges None # evs) m = Some (Some MachinesWatcherClosed)"
| "loop startMachines errDying (WatcherChanges (Some ids) # evs) m =
     (let tags = map NewMachineTag ids
      in case startMachines tags m of
           (Some err, m') \<Rightarrow> Some (Some err)
         | (None, m') \<Rightarrow> loop startMachines errDying evs m')"
| "loop startMachines errDying (MachineDead d # evs) m =
     loop startMachines errDying evs (m\<lparr>machines := (machines m)(d := None)\<rparr>)"

text \<open>
  Modelled from the spec: the catacomb of the worker (package
  gopkg.in/juju/worker.v1/catacomb, outside these sources), which \<^verbatim>\<open>newWorker\<close> runs
  \<^verbatim>\<open>w.loop\<close> in and \<^verbatim>\<open>Wait\<close> reads: the failure of the tree is the first non-nil
  error observed from any source, later ones are discarded. \<open>invokeWork\<close> is what
  \<^verbatim>\<open>catacomb.Invoke\<close> does with the result of the \<^verbatim>\<open>Work\<close> function.
\<close>

record catacomb =
  dying :: bool
  reason :: "error option"

definition Kill :: "error option \<Rightarrow> catacomb \<Rightarrow> catacomb" where
  "Kill err c =
     c\<lparr>dying := True, reason := (case reason c of None \<Rightarrow> err | Some first \<Rightarrow> Some first)\<rparr>"

definition Wait :: "catacomb \<Rightarrow> error option" where
  "Wait c = reason c"

definition invokeWork :: "error option option \<Rightarrow> catacomb \<Rightarrow> catacomb" where
  "invokeWork work c = (case work of None \<Rightarrow> c | Some err \<Rightarrow> Kill err c)"

section \<open>Example values\<close>

text \<open>
  The values of the sample scenario of the specification: two units, their ranges, a
  ports document of machine 0 without a subnet, and a store whose model, machine and
  units are alive. The instances of the theorems below are stated on them.
  \<open>exampleMapToLower\<close> does what \<^verbatim>\<open>strings.Map(unicode.ToLower, s)\<close> does on the one
  string with a byte from 0x80 on that the instances use: the rune U+0130 (the bytes C4
  B0) followed by \<^verbatim>\<open>cmp\<close>, which it turns into \<^verbatim>\<open>icmp\<close>.
\<close>

definition exampleMapToLower :: "string \<Rightarrow> string" where
  "exampleMapToLower s = (if s = [CHR 0xC4, CHR 0xB0] @ ''cmp'' then ''icmp'' else s)"

definition exampleIsValidUnit :: "string \<Rightarrow> bool" where
  "exampleIsValidUnit u = (u = ''web/0'' \<or> u = ''db/0'')"

definition web80 :: PortRange where
  "web80 = \<lparr>UnitName = ''web/0'', FromPort = 80, ToPort = 80, Protocol = ''tcp''\<rparr>"

definition web8080 :: PortRange where
  "web8080 = \<lparr>UnitName = ''web/0'', FromPort = 8080, ToPort = 8080, Protocol = ''tcp''\<rparr>"

definition web80to90 :: PortRange where
  "web80to90 = \<lparr>UnitName = ''web/0'', FromPort = 80, ToPort = 90, Protocol = ''tcp''\<rparr>"

definition db80to90 :: PortRange where
  "db80to90 = \<lparr>UnitName = ''db/0'', FromPort = 80, ToPort = 90, Protocol = ''tcp''\<rparr>"

definition exampleState :: State where
  "exampleState = \<lparr>stModelUUID = ''uuid'', docID = (\<lambda>i. ''uuid:'' @ i), maxRetries = 2\<rparr>"

definition examplePorts :: "PortRange list \<Rightarrow> bool \<Rightarrow> Ports" where
  "examplePorts ranges new =
     \<lparr>st = exampleState,
      doc = \<lparr>DocID = docID exampleState (portsGlobalKey ''0'' []), ModelUUID = ''uuid'',
             MachineID = ''0'', SubnetID = [], Ports = ranges, TxnRevno = 0\<rparr>,
      areNew = new\<rparr>"

definition exampleStore :: "(string \<rightharpoonup> portsDoc) \<Rightarrow> store" where
  "exampleStore docs =
     \<lparr>modelActive = True, machinesColl = [''uuid:0'' \<mapsto> Alive], subnetsColl = Map.empty,
      unitsColl = [''uuid:web/0'' \<mapsto> Alive, ''uuid:db/0'' \<mapsto> Alive], openedPorts = docs\<rparr>"

definition exampleStartMachines :: "MachineTag list \<Rightarrow> mutater \<Rightarrow> error option \<times> mutater" where
  "exampleStartMachines tags m =
     (None, m\<lparr>machines := (\<lambda>t. if t \<in> set tags then Some () else machines m t)\<rparr>)"

definition exampleMachineSnippet :: "string \<Rightarrow> bool" where
  "exampleMachineSnippet m = (m = ''0'' \<or> m = ''1'')"

lemmas example_defs = exampleIsValidUnit_def web80_def web8080_def web80to90_def db80to90_def
  exampleState_def examplePorts_def exampleStore_def portsGlobalKey_def

section \<open>Validation, bounds and the conflict relation\<close>

lemma ToLower_protocols [simp]:
  "ToLower f ''tcp'' = ''tcp''" "ToLower f ''udp'' = ''udp''" "ToLower f ''icmp'' = ''icmp''"
  "ToLower f ''TCP'' = ''tcp''" "ToLower f ''ICMP'' = ''icmp''"
  by code_simp+

lemma ToLower_U0130 [simp]:
  "ToLower f [CHR 0xC4, CHR 0xB0, CHR ''c'', CHR ''m'', CHR ''p'']
     = f [CHR 0xC4, CHR 0xB0, CHR ''c'', CHR ''m'', CHR ''p'']"
  by code_simp

lemma Validate_errors:
  "Validate mapUnicodeToLower isValidUnit x \<noteq> Some (PortRangesConflict a b)"
  "Validate mapUnicodeToLower isValidUnit x \<noteq> Some ErrNoOperations"
  by (simp_all add: Validate_def Let_def)

lemma CheckConflicts_conflictD:
  "CheckConflicts mapUnicodeToLower isValidUnit a b = Some (PortRangesConflict c d)
     \<Longrightarrow> Validate mapUnicodeToLower isValidUnit a = None \<and> Validate mapUnicodeToLower isValidUnit b = None \<and> c = a \<and> d = b"
  using Validate_errors(1) [of mapUnicodeToLower isValidUnit]
  by (auto simp: CheckConflicts_def split: option.splits if_splits)

lemma CheckConflicts_not_noop: "CheckConflicts mapUnicodeToLower isValidUnit a b \<noteq> Some ErrNoOperations"
  using Validate_errors(2) [of mapUnicodeToLower isValidUnit]
  by (auto simp: CheckConflicts_def split: option.splits if_splits)

lemma CheckConflicts_same: "CheckConflicts mapUnicodeToLower isValidUnit a a = Validate mapUnicodeToLower isValidUnit a"
  by (auto simp: CheckConflicts_def split: option.splits)

text \<open>
  Claim C6. \<^verbatim>\<open>Validate\<close> succeeds (returns \<^verbatim>\<open>nil\<close>) if and only if the protocol,
  compared case-insensitively (that is, after \<^verbatim>\<open>strings.ToLower\<close>), is one of tcp,
  udp, icmp; the unit name is a valid unit name; and either the protocol is icmp with both
  bounds equal to -1, or it is tcp or udp with \<open>1 \<le> FromPort \<le> ToPort \<le> 65535\<close>.
  This holds whatever the case tables of the package unicode do to a string that is not
  ASCII, and whatever \<^verbatim>\<open>names.IsValidUnit\<close> accepts.
\<close>

theorem Validate_iff:
  "Validate mapUnicodeToLower isValidUnit p = None \<longleftrightarrow>
     ToLower mapUnicodeToLower (Protocol p) \<in> {''tcp'', ''udp'', ''icmp''}
     \<and> isValidUnit (UnitName p)
     \<and> (ToLower mapUnicodeToLower (Protocol p) = ''icmp''
            \<and> FromPort p = - 1 \<and> ToPort p = - 1
         \<or> ToLower mapUnicodeToLower (Protocol p) \<in> {''tcp'', ''udp''}
            \<and> 1 \<le> FromPort p \<and> FromPort p \<le> ToPort p \<and> ToPort p \<le> 65535)"
  by (auto simp: Validate_def Let_def)

theorem Validate_iff_witness:
  "Validate exampleMapToLower exampleIsValidUnit
     \<lparr>UnitName = ''web/0'', FromPort = 80, ToPort = 90, Protocol = ''TCP''\<rparr> = None
   \<and> Validate exampleMapToLower exampleIsValidUnit
     \<lparr>UnitName = ''web/0'', FromPort = - 1, ToPort = - 1, Protocol = ''ICMP''\<rparr> = None
   \<and> Validate exampleMapToLower exampleIsValidUnit
     \<lparr>UnitName = ''web/0'', FromPort = - 1, ToPort = - 1,
      Protocol = [CHR 0xC4, CHR 0xB0] @ ''cmp''\<rparr> = None
   \<and> Validate exampleMapToLower exampleIsValidUnit
     \<lparr>UnitName = ''web/0'', FromPort = 0, ToPort = 90, Protocol = ''tcp''\<rparr> \<noteq> None
   \<and> Validate exampleMapToLower exampleIsValidUnit
     \<lparr>UnitName = ''web/0'', FromPort = 80, ToPort = 80, Protocol = ''icmp''\<rparr> \<noteq> None"
  using
    Validate_iff [of exampleMapToLower exampleIsValidUnit
      "\<lparr>UnitName = ''web/0'', FromPort = 80, ToPort = 90, Protocol = ''TCP''\<rparr>"]
    Validate_iff [of exampleMapToLower exampleIsValidUnit
      "\<lparr>UnitName = ''web/0'', FromPort = - 1, ToPort = - 1, Protocol = ''ICMP''\<rparr>"]
    Validate_iff [of exampleMapToLower exampleIsValidUnit
      "\<lparr>UnitName = ''web/0'', FromPort = - 1, ToPort = - 1,
        Protocol = [CHR 0xC4, CHR 0xB0] @ ''cmp''\<rparr>"]
    Validate_iff [of exampleMapToLower exampleIsValidUnit
      "\<lparr>UnitName = ''web/0'', FromPort = 0, ToPort = 90, Protocol = ''tcp''\<rparr>"]
    Validate_iff [of exampleMapToLower exampleIsValidUnit
      "\<lparr>UnitName = ''web/0'', FromPort = 80, ToPort = 80, Protocol = ''icmp''\<rparr>"]
  by (simp add: exampleIsValidUnit_def exampleMapToLower_def)

text \<open>
  Claim C2. For two port ranges that each pass validation, \<^verbatim>\<open>CheckConflicts\<close> reports
  a conflict if and only if they have the same protocol, their bounds overlap
  (\<open>A.ToPort \<ge> B.FromPort\<close> and \<open>B.ToPort \<ge> A.FromPort\<close>), and they are not the same
  tuple of owner, bounds and protocol; otherwise it returns \<^verbatim>\<open>nil\<close>. The protocols are
  the same when the two \<^verbatim>\<open>Protocol\<close> fields are equal strings.
\<close>

theorem CheckConflicts_iff:
  assumes "Validate mapUnicodeToLower isValidUnit prA = None" and "Validate mapUnicodeToLower isValidUnit prB = None"
  shows "(CheckConflicts mapUnicodeToLower isValidUnit prA prB = Some (PortRangesConflict prA prB) \<longleftrightarrow>
            Protocol prA = Protocol prB
            \<and> (ToPort prA \<ge> FromPort prB \<and> ToPort prB \<ge> FromPort prA)
            \<and> \<not> (UnitName prA = UnitName prB \<and> FromPort prA = FromPort prB
                  \<and> ToPort prA = ToPort prB \<and> Protocol prA = Protocol prB))
         \<and> (CheckConflicts mapUnicodeToLower isValidUnit prA prB \<noteq> Some (PortRangesConflict prA prB) \<longleftrightarrow>
              CheckConflicts mapUnicodeToLower isValidUnit prA prB = None)"
  using assms by (cases prA; cases prB) (auto simp: CheckConflicts_def)

theorem CheckConflicts_iff_witness:
  "CheckConflicts exampleMapToLower exampleIsValidUnit web80 db80to90 = Some (PortRangesConflict web80 db80to90)
   \<and> CheckConflicts exampleMapToLower exampleIsValidUnit web80 web8080 = None
   \<and> CheckConflicts exampleMapToLower exampleIsValidUnit web80 web80 = None"
  using CheckConflicts_iff [of exampleMapToLower exampleIsValidUnit web80 db80to90]
    CheckConflicts_iff [of exampleMapToLower exampleIsValidUnit web80 web8080]
    CheckConflicts_iff [of exampleMapToLower exampleIsValidUnit web80 web80]
  by (auto simp: Validate_def example_defs)

text \<open>
  Claim C9. The conflict relation is symmetric: for two port ranges that each pass
  validation, \<^verbatim>\<open>CheckConflicts(A, B)\<close> reports a conflict if and only if
  \<^verbatim>\<open>CheckConflicts(B, A)\<close> does, and one returns \<^verbatim>\<open>nil\<close> if and only if the other does.
\<close>

theorem CheckConflicts_symmetric:
  assumes "Validate mapUnicodeToLower isValidUnit prA = None" and "Validate mapUnicodeToLower isValidUnit prB = None"
  shows "(CheckConflicts mapUnicodeToLower isValidUnit prA prB = Some (PortRangesConflict prA prB) \<longleftrightarrow>
            CheckConflicts mapUnicodeToLower isValidUnit prB prA = Some (PortRangesConflict prB prA))
         \<and> (CheckConflicts mapUnicodeToLower isValidUnit prA prB = None \<longleftrightarrow>
              CheckConflicts mapUnicodeToLower isValidUnit prB prA = None)"
  using assms by (auto simp: CheckConflicts_def)

theorem CheckConflicts_symmetric_witness:
  "CheckConflicts exampleMapToLower exampleIsValidUnit db80to90 web80 = Some (PortRangesConflict db80to90 web80)
   \<and> CheckConflicts exampleMapToLower exampleIsValidUnit web80 db80to90 = Some (PortRangesConflict web80 db80to90)
   \<and> CheckConflicts exampleMapToLower exampleIsValidUnit web8080 db80to90 = None
   \<and> CheckConflicts exampleMapToLower exampleIsValidUnit db80to90 web8080 = None"
  using CheckConflicts_symmetric [of exampleMapToLower exampleIsValidUnit db80to90 web80]
    CheckConflicts_symmetric [of exampleMapToLower exampleIsValidUnit web8080 db80to90]
  by (simp add: CheckConflicts_def Validate_def example_defs)

text \<open>
  Claim C10. For a port range whose protocol is not icmp, \<^verbatim>\<open>SanitizeBounds\<close> returns
  a range with the same unit name and protocol whose bounds satisfy
  \<open>1 \<le> FromPort \<le> ToPort \<le> 65535\<close>; an icmp range is returned unchanged; and
  \<^verbatim>\<open>SanitizeBounds\<close> is idempotent.
\<close>

theorem SanitizeBounds_bounds:
  "(Protocol a \<noteq> ''icmp'' \<longrightarrow>
      UnitName (SanitizeBounds a) = UnitName a \<and> Protocol (SanitizeBounds a) = Protocol a
      \<and> 1 \<le> FromPort (SanitizeBounds a) \<and> FromPort (SanitizeBounds a) \<le> ToPort (SanitizeBounds a)
      \<and> ToPort (SanitizeBounds a) \<le> 65535)
   \<and> (Protocol a = ''icmp'' \<longrightarrow> SanitizeBounds a = a)
   \<and> SanitizeBounds (SanitizeBounds a) = SanitizeBounds a"
  by (auto simp: SanitizeBounds_def sanitizeBound_def Let_def)

theorem SanitizeBounds_bounds_witness:
  "SanitizeBounds \<lparr>UnitName = ''web/0'', FromPort = 70000, ToPort = - 5, Protocol = ''tcp''\<rparr>
     = \<lparr>UnitName = ''web/0'', FromPort = 1, ToPort = 65535, Protocol = ''tcp''\<rparr>
   \<and> SanitizeBounds \<lparr>UnitName = ''web/0'', FromPort = - 1, ToPort = - 1, Protocol = ''icmp''\<rparr>
     = \<lparr>UnitName = ''web/0'', FromPort = - 1, ToPort = - 1, Protocol = ''icmp''\<rparr>"
  using
    SanitizeBounds_bounds
      [of "\<lparr>UnitName = ''web/0'', FromPort = 70000, ToPort = - 5, Protocol = ''tcp''\<rparr>"]
    SanitizeBounds_bounds
      [of "\<lparr>UnitName = ''web/0'', FromPort = - 1, ToPort = - 1, Protocol = ''icmp''\<rparr>"]
  by (simp add: SanitizeBounds_def sanitizeBound_def)

section \<open>The transaction runner\<close>

lemma Ports_copy [simp]: "\<lparr>st = st p, doc = doc p, areNew = areNew p\<rparr> = (p::Ports)"
  by simp

lemma Run_attempt0:
  "Run state buildTxn s l =
     (case buildTxn 0 s l of
        (Inl err, l') \<Rightarrow> if err = ErrNoOperations then (None, s, l') else (Some err, s, l')
      | (Inr ops, l') \<Rightarrow>
          (case RunTransaction ops s of
             Some s' \<Rightarrow> (None, s', l')
           | None \<Rightarrow> runAttempts (maxRetries state) (Suc 0) buildTxn s l'))"
  by (simp add: Run_def)

lemma Run_build_error:
  "buildTxn 0 s l = (Inl err, l') \<Longrightarrow>
     Run state buildTxn s l = ((if err = ErrNoOperations then None else Some err), s, l')"
  by (simp add: Run_def)

lemma runAttempts_build_error:
  assumes "\<exists>err. buildTxn attempt s l = (Inl err, l)"
  shows "\<exists>err. runAttempts n attempt buildTxn s l = (err, s, l)"
  using assms by (cases n) auto

section \<open>Opening a port range\<close>

lemma openPortsExisting_same:
  "R \<in> set qs \<Longrightarrow> \<forall>x\<in>set qs. CheckConflicts mapUnicodeToLower isValidUnit x R = None
     \<Longrightarrow> openPortsExisting mapUnicodeToLower isValidUnit R qs = Some ErrNoOperations"
  by (induction qs) auto

lemma openPortsExisting_conflict:
  "R1 \<in> set qs \<Longrightarrow> CheckConflicts mapUnicodeToLower isValidUnit R1 R2 = Some (PortRangesConflict R1 R2)
     \<Longrightarrow> \<forall>x\<in>set qs. Validate mapUnicodeToLower isValidUnit x = None \<Longrightarrow> R2 \<notin> set qs
     \<Longrightarrow> \<exists>e\<in>set qs. openPortsExisting mapUnicodeToLower isValidUnit R2 qs = Some (PortRangesConflict e R2)"
proof (induction qs)
  case Nil
  then show ?case by simp
next
  case (Cons q qs)
  have vq: "Validate mapUnicodeToLower isValidUnit q = None" using Cons.prems by simp
  have v2: "Validate mapUnicodeToLower isValidUnit R2 = None"
    using Cons.prems(2) CheckConflicts_conflictD by blast
  show ?case
  proof (cases "CheckConflicts mapUnicodeToLower isValidUnit q R2")
    case None
    then have "q \<noteq> R1" using Cons.prems(2) by auto
    then have "R1 \<in> set qs" using Cons.prems(1) by simp
    then obtain e where "e \<in> set qs"
        "openPortsExisting mapUnicodeToLower isValidUnit R2 qs = Some (PortRangesConflict e R2)"
      using Cons.IH Cons.prems by auto
    then show ?thesis using None Cons.prems(4) by auto
  next
    case (Some err)
    then have "err = PortRangesConflict q R2"
      using vq v2 by (auto simp: CheckConflicts_def split: if_splits)
    then show ?thesis using Some by auto
  qed
qed

text \<open>
  Opening a range that the document of the receiver holds already, when the ranges of
  that document validate and do not conflict with each other: the builder returns
  \<^verbatim>\<open>ErrNoOperations\<close> at attempt 0, the runner returns \<^verbatim>\<open>nil\<close> without a
  transaction, and \<^verbatim>\<open>OpenPorts\<close> goes on to its last two assignments.
\<close>

lemma OpenPorts_same_range:
  assumes "Validate mapUnicodeToLower isValidUnit R = None" and "R \<in> set (Ports (doc p))"
    and "\<forall>x\<in>set (Ports (doc p)). \<forall>y\<in>set (Ports (doc p)). CheckConflicts mapUnicodeToLower isValidUnit x y = None"
  shows "OpenPorts mapUnicodeToLower isValidUnit p R s
           = (None, p\<lparr>areNew := False, doc := (doc p)\<lparr>Ports := Ports (doc p) @ [R]\<rparr>\<rparr>, s)"
proof -
  have "openPortsExisting mapUnicodeToLower isValidUnit R (Ports (doc p)) = Some ErrNoOperations"
    using assms by (intro openPortsExisting_same) auto
  then have "openPortsBuildTxn mapUnicodeToLower isValidUnit p R 0 s p = (Inl ErrNoOperations, p)"
    by (simp add: openPortsBuildTxn_def)
  then have "Run (st p) (openPortsBuildTxn mapUnicodeToLower isValidUnit p R) s p = (None, s, p)"
    by (simp add: Run_build_error)
  then show ?thesis using assms(1) by (simp add: OpenPorts_def)
qed

lemma OpenPorts_first:
  "OpenPorts exampleMapToLower exampleIsValidUnit (examplePorts [] True) web80 (exampleStore Map.empty)
     = (None, examplePorts [web80] False,
        exampleStore [''uuid:m#0#'' \<mapsto> (doc (examplePorts [web80] False))\<lparr>TxnRevno := 1\<rparr>])"
  by (simp add: OpenPorts_def Run_attempt0 openPortsBuildTxn_def addPortsDocOps_def
      assertMachineNotDeadAndSubnetNotDeadWhenSetOps_def assertModelActiveOp_def
      RunTransaction_def assertHolds_def docExists_def lifeOf_def applyChange_def
      Validate_def example_defs Let_def)

text \<open>
  Claim C1. For a ports document and a valid port range already present in it, calling
  \<^verbatim>\<open>OpenPorts\<close> a second time with the same range succeeds and leaves the range list
  and the revision token of the document unchanged, with no transaction executed on the
  second call.

  The code on the sample range, opened twice on a new document of machine 0: the first
  call inserts the document; the second call returns \<^verbatim>\<open>nil\<close>, runs no transaction and
  leaves the store (so the stored range list and revision) and the \<^verbatim>\<open>TxnRevno\<close> of
  the receiver as they were, but the range list of the receiver holds the range twice
  after it.
\<close>

theorem OpenPorts_same_range_twice:
  "OpenPorts exampleMapToLower exampleIsValidUnit (examplePorts [] True) web80 (exampleStore Map.empty)
     = (None, examplePorts [web80] False,
        exampleStore [''uuid:m#0#'' \<mapsto> (doc (examplePorts [web80] False))\<lparr>TxnRevno := 1\<rparr>])
   \<and> OpenPorts exampleMapToLower exampleIsValidUnit (examplePorts [web80] False) web80
        (exampleStore [''uuid:m#0#'' \<mapsto> (doc (examplePorts [web80] False))\<lparr>TxnRevno := 1\<rparr>])
     = (None, examplePorts [web80, web80] False,
        exampleStore [''uuid:m#0#'' \<mapsto> (doc (examplePorts [web80] False))\<lparr>TxnRevno := 1\<rparr>])"
  using OpenPorts_first
    OpenPorts_same_range [of exampleMapToLower exampleIsValidUnit web80 "examplePorts [web80] False"
      "exampleStore [''uuid:m#0#'' \<mapsto> (doc (examplePorts [web80] False))\<lparr>TxnRevno := 1\<rparr>]"]
  by (simp add: examplePorts_def CheckConflicts_same Validate_def web80_def exampleIsValidUnit_def)

text \<open>
  Claim C3. For a ports document holding a committed valid range R1 and a valid range R2
  with the same protocol as R1, overlapping bounds, a different owner, and not identical
  to R1, \<^verbatim>\<open>OpenPorts(R2)\<close> returns a conflict error, and the document (its range list
  and revision token) and the store are unmodified. The document is one of the data
  model: its ranges validate and no two of them conflict, which is the last hypothesis.
\<close>

theorem OpenPorts_conflict:
  assumes "Validate mapUnicodeToLower isValidUnit R2 = None"
    and "R1 \<in> set (Ports (doc p))" and "Validate mapUnicodeToLower isValidUnit R1 = None"
    and "Protocol R1 = Protocol R2"
    and "ToPort R1 \<ge> FromPort R2 \<and> ToPort R2 \<ge> FromPort R1"
    and "UnitName R1 \<noteq> UnitName R2"
    and "\<forall>x\<in>set (Ports (doc p)). \<forall>y\<in>set (Ports (doc p)). CheckConflicts mapUnicodeToLower isValidUnit x y = None"
  shows "\<exists>e\<in>set (Ports (doc p)).
           OpenPorts mapUnicodeToLower isValidUnit p R2 s
             = (Some (CannotOpenPorts R2 (PortRangesConflict e R2)), p, s)"
proof -
  have c: "CheckConflicts mapUnicodeToLower isValidUnit R1 R2 = Some (PortRangesConflict R1 R2)"
    using assms(1,3,4,5,6) by (auto simp: CheckConflicts_def)
  have "R2 \<notin> set (Ports (doc p))"
    using assms(2,7) c by auto
  moreover have "\<forall>x\<in>set (Ports (doc p)). Validate mapUnicodeToLower isValidUnit x = None"
    using assms(7) CheckConflicts_same [of mapUnicodeToLower isValidUnit] by metis
  ultimately obtain e where e: "e \<in> set (Ports (doc p))"
      "openPortsExisting mapUnicodeToLower isValidUnit R2 (Ports (doc p)) = Some (PortRangesConflict e R2)"
    using openPortsExisting_conflict [OF assms(2) c] by blast
  then have "openPortsBuildTxn mapUnicodeToLower isValidUnit p R2 0 s p = (Inl (PortRangesConflict e R2), p)"
    by (simp add: openPortsBuildTxn_def)
  then have "Run (st p) (openPortsBuildTxn mapUnicodeToLower isValidUnit p R2) s p
      = (Some (PortRangesConflict e R2), s, p)"
    by (simp add: Run_build_error)
  then show ?thesis using assms(1) e(1) by (auto simp: OpenPorts_def)
qed

theorem OpenPorts_conflict_witness:
  "OpenPorts exampleMapToLower exampleIsValidUnit (examplePorts [web80, web8080] False) db80to90
       (exampleStore Map.empty)
     = (Some (CannotOpenPorts db80to90 (PortRangesConflict web80 db80to90)),
        examplePorts [web80, web8080] False, exampleStore Map.empty)"
  using OpenPorts_conflict [of exampleMapToLower exampleIsValidUnit db80to90 web80
      "examplePorts [web80, web8080] False" "exampleStore Map.empty"]
  by (auto simp: OpenPorts_def Run_attempt0 openPortsBuildTxn_def CheckConflicts_def Validate_def
      example_defs)

section \<open>Closing a port range\<close>

lemma closePortsExisting_conflict:
  "e \<in> set qs \<Longrightarrow> UnitName e = UnitName R \<Longrightarrow> CheckConflicts mapUnicodeToLower isValidUnit e R = Some c
     \<Longrightarrow> R \<notin> set qs
     \<Longrightarrow> \<exists>e'\<in>set qs. \<exists>err. UnitName e' = UnitName R
           \<and> CheckConflicts mapUnicodeToLower isValidUnit e' R = Some err
           \<and> fst (closePortsExisting mapUnicodeToLower isValidUnit R qs found newPorts) = Some err"
proof (induction qs arbitrary: found newPorts)
  case Nil
  then show ?case by simp
next
  case (Cons q qs)
  show ?case
  proof (cases "UnitName q = UnitName R \<and> CheckConflicts mapUnicodeToLower isValidUnit q R \<noteq> None")
    case True
    then show ?thesis using Cons.prems(4) by auto
  next
    case False
    then have "q \<noteq> e" using Cons.prems by auto
    then have "e \<in> set qs" using Cons.prems by simp
    then obtain e' err where "e' \<in> set qs" "UnitName e' = UnitName R"
        "CheckConflicts mapUnicodeToLower isValidUnit e' R = Some err"
        "fst (closePortsExisting mapUnicodeToLower isValidUnit R qs found (newPorts @ [q])) = Some err"
      using Cons.IH [of found "newPorts @ [q]"] Cons.prems by auto
    then show ?thesis using False Cons.prems(4) by (auto split: option.splits)
  qed
qed

text \<open>
  Claim C7. For a ports document and a valid range R not present in it, if the document
  contains a range with the same unit name as R that conflicts with R, then
  \<^verbatim>\<open>ClosePorts(R)\<close> fails rather than succeeding as a no-op: it returns the error
  that \<^verbatim>\<open>CheckConflicts\<close> gives for a range of that unit in the document, and leaves the
  receiver and the store as they were. When the ranges of the document validate, as the
  data model has it, that error is the conflict error.
\<close>

theorem ClosePorts_conflict:
  assumes "Validate mapUnicodeToLower isValidUnit R = None" and "R \<notin> set (Ports (doc p))"
    and "e \<in> set (Ports (doc p))" and "UnitName e = UnitName R"
    and "CheckConflicts mapUnicodeToLower isValidUnit e R = Some (PortRangesConflict e R)"
  shows "\<exists>e'\<in>set (Ports (doc p)). \<exists>err.
           UnitName e' = UnitName R \<and> CheckConflicts mapUnicodeToLower isValidUnit e' R = Some err
           \<and> ClosePorts mapUnicodeToLower isValidUnit p R s = (Some (CannotClosePorts R err), p, s)
           \<and> ((\<forall>x\<in>set (Ports (doc p)). Validate mapUnicodeToLower isValidUnit x = None)
                \<longrightarrow> err = PortRangesConflict e' R)"
proof -
  obtain e' err where e': "e' \<in> set (Ports (doc p))" "UnitName e' = UnitName R"
      "CheckConflicts mapUnicodeToLower isValidUnit e' R = Some err"
      "fst (closePortsExisting mapUnicodeToLower isValidUnit R (Ports (doc p)) False []) = Some err"
    using closePortsExisting_conflict [OF assms(3,4,5,2)] by blast
  have ne: "err \<noteq> ErrNoOperations"
    using e'(3) CheckConflicts_not_noop [of mapUnicodeToLower isValidUnit e' R] by auto
  obtain f np where "closePortsExisting mapUnicodeToLower isValidUnit R (Ports (doc p)) False [] = (Some err, f, np)"
    using e'(4) by (cases "closePortsExisting mapUnicodeToLower isValidUnit R (Ports (doc p)) False []") auto
  then have "closePortsBuildTxn mapUnicodeToLower isValidUnit p R 0 s (p, []) = (Inl err, p, np)"
    by (simp add: closePortsBuildTxn_def)
  then have "Run (st p) (closePortsBuildTxn mapUnicodeToLower isValidUnit p R) s (p, []) = (Some err, s, p, np)"
    using ne by (simp add: Run_build_error)
  then have r: "ClosePorts mapUnicodeToLower isValidUnit p R s = (Some (CannotClosePorts R err), p, s)"
    using assms(1) by (simp add: ClosePorts_def)
  have "(\<forall>x\<in>set (Ports (doc p)). Validate mapUnicodeToLower isValidUnit x = None)
          \<longrightarrow> err = PortRangesConflict e' R"
    using e'(1,3) assms(1) by (auto simp: CheckConflicts_def split: if_splits)
  then show ?thesis using e' r by blast
qed

theorem ClosePorts_conflict_witness:
  "ClosePorts exampleMapToLower exampleIsValidUnit (examplePorts [web80to90] False) web80 (exampleStore Map.empty)
     = (Some (CannotClosePorts web80 (PortRangesConflict web80to90 web80)),
        examplePorts [web80to90] False, exampleStore Map.empty)"
  using ClosePorts_conflict [of exampleMapToLower exampleIsValidUnit web80 "examplePorts [web80to90] False"
      web80to90 "exampleStore Map.empty"]
  by (auto simp: ClosePorts_def Run_attempt0 closePortsBuildTxn_def CheckConflicts_def Validate_def
      example_defs)

lemma removeOps_run:
  "RunTransaction (removeOps p) s =
     (if openedPorts s (DocID (doc p)) \<noteq> None
        then Some (s\<lparr>openedPorts := (openedPorts s)(DocID (doc p) := None)\<rparr>)
      else None)"
  by (simp add: RunTransaction_def removeOps_def assertHolds_def docExists_def applyChange_def)

lemma closePortsBuildTxn_last:
  assumes "Ports (doc p) = [R]"
  shows "closePortsBuildTxn mapUnicodeToLower isValidUnit p R 0 s (p, []) = (Inr (removeOps p), p, [])"
  using assms by (simp add: closePortsBuildTxn_def)

lemma closePortsBuildTxn_gone:
  assumes "openedPorts s (DocID (doc ports)) = None" and "0 < attempt"
  shows "\<exists>err. closePortsBuildTxn mapUnicodeToLower isValidUnit p R attempt s (ports, np) = (Inl err, ports, np)"
  using assms
  by (auto simp: closePortsBuildTxn_def closePortsRetry_def Refresh_def split: option.splits)

text \<open>
  Claim C4. For a ports document whose range list contains exactly one range R,
  \<^verbatim>\<open>ClosePorts(R)\<close> issues a transactional removal of the whole document instead of
  persisting it with an empty range list, so a subsequent find on its key returns
  not-found. The operation list built at attempt 0 is the single \<^verbatim>\<open>Remove\<close> of the
  document under \<^verbatim>\<open>txn.DocExists\<close>; whatever the store held, no document is found
  under the key after the call; and when the store held the document, the call succeeds,
  the store differs from the one before by that removal only, and the range list of the
  receiver is empty.
\<close>

theorem ClosePorts_last_range:
  assumes "Validate mapUnicodeToLower isValidUnit R = None" and "Ports (doc p) = [R]"
  shows "fst (closePortsBuildTxn mapUnicodeToLower isValidUnit p R 0 s
                (\<lparr>st = st p, doc = doc p, areNew = areNew p\<rparr>, []))
           = Inr [\<lparr>opC = openedPortsC, opId = DocID (doc p), opAssert = DocExists,
                   opChange = Remove\<rparr>]
         \<and> (case ClosePorts mapUnicodeToLower isValidUnit p R s of (err, p', s') \<Rightarrow>
              openedPorts s' (DocID (doc p)) = None
              \<and> (openedPorts s (DocID (doc p)) \<noteq> None \<longrightarrow>
                   err = None \<and> Ports (doc p') = []
                   \<and> s' = s\<lparr>openedPorts := (openedPorts s)(DocID (doc p) := None)\<rparr>))"
proof -
  have b: "closePortsBuildTxn mapUnicodeToLower isValidUnit p R 0 s (p, []) = (Inr (removeOps p), p, [])"
    using assms(2) by (rule closePortsBuildTxn_last)
  show ?thesis
  proof (cases "openedPorts s (DocID (doc p))")
    case None
    have "\<exists>err. closePortsBuildTxn mapUnicodeToLower isValidUnit p R (Suc 0) s (p, []) = (Inl err, p, [])"
      using None by (intro closePortsBuildTxn_gone) auto
    then have "\<exists>err. runAttempts (maxRetries (st p)) (Suc 0)
        (closePortsBuildTxn mapUnicodeToLower isValidUnit p R) s (p, []) = (err, s, p, [])"
      by (rule runAttempts_build_error)
    then obtain err where "runAttempts (maxRetries (st p)) (Suc 0)
        (closePortsBuildTxn mapUnicodeToLower isValidUnit p R) s (p, []) = (err, s, p, [])"
      by blast
    then have "Run (st p) (closePortsBuildTxn mapUnicodeToLower isValidUnit p R) s (p, []) = (err, s, p, [])"
      using b None by (simp add: Run_def removeOps_run)
    then show ?thesis using assms(1) None b
      by (cases err) (simp_all add: ClosePorts_def removeOps_def)
  next
    case (Some d)
    then have "Run (st p) (closePortsBuildTxn mapUnicodeToLower isValidUnit p R) s (p, []) =
        (None, s\<lparr>openedPorts := (openedPorts s)(DocID (doc p) := None)\<rparr>, p, [])"
      using b by (simp add: Run_def removeOps_run)
    then show ?thesis using assms(1) Some b
      by (simp add: ClosePorts_def removeOps_def)
  qed
qed

theorem ClosePorts_last_range_witness:
  "fst (ClosePorts exampleMapToLower exampleIsValidUnit (examplePorts [web80] False) web80
          (exampleStore [''uuid:m#0#'' \<mapsto> doc (examplePorts [web80] False)])) = None
   \<and> openedPorts (snd (snd (ClosePorts exampleMapToLower exampleIsValidUnit (examplePorts [web80] False) web80
          (exampleStore [''uuid:m#0#'' \<mapsto> doc (examplePorts [web80] False)]))))
        ''uuid:m#0#'' = None"
  using ClosePorts_last_range [of exampleMapToLower exampleIsValidUnit web80 "examplePorts [web80] False"
      "exampleStore [''uuid:m#0#'' \<mapsto> doc (examplePorts [web80] False)]"]
  by (auto simp: Validate_def example_defs split: prod.splits)

section \<open>Ports document keys: builder and parser\<close>

lemma matchPortsIDReAt_iff:
  "matchPortsIDReAt ms t = Some parts \<longleftrightarrow>
     (\<exists>m sub. t = portsGlobalKey m sub \<and> ms m \<and> CHR ''#'' \<notin> set m \<and> CHR 0x0A \<notin> set sub
        \<and> parts = [t, m, sub])"
proof
  assume a: "matchPortsIDReAt ms t = Some parts"
  then have t2: "take 2 t = ''m#''"
    by (auto simp: matchPortsIDReAt_def split: if_splits)
  let ?rest = "drop 2 t"
  let ?m = "takeWhile (\<lambda>c. c \<noteq> CHR ''#'') ?rest"
  obtain x sub where d: "dropWhile (\<lambda>c. c \<noteq> CHR ''#'') ?rest = x # sub"
    using a t2 by (auto simp: matchPortsIDReAt_def Let_def split: list.splits)
  then have "x = CHR ''#''"
    using hd_dropWhile [of "\<lambda>c. c \<noteq> CHR ''#''" ?rest] by auto
  then have r: "?rest = ?m @ CHR ''#'' # sub"
    using d takeWhile_dropWhile_id [of "\<lambda>c. c \<noteq> CHR ''#''" ?rest] by simp
  have "t = take 2 t @ drop 2 t" by simp
  then have "t = ''m#'' @ ?m @ CHR ''#'' # sub" using t2 r by metis
  then have k: "t = portsGlobalKey ?m sub" by (simp add: portsGlobalKey_def)
  have "CHR ''#'' \<notin> set ?m" by (auto dest: set_takeWhileD)
  moreover have "ms ?m \<and> CHR 0x0A \<notin> set sub \<and> parts = [t, ?m, sub]"
    using a t2 d by (auto simp: matchPortsIDReAt_def Let_def split: if_splits)
  ultimately show "\<exists>m sub. t = portsGlobalKey m sub \<and> ms m \<and> CHR ''#'' \<notin> set m
      \<and> CHR 0x0A \<notin> set sub \<and> parts = [t, m, sub]"
    using k by blast
next
  assume "\<exists>m sub. t = portsGlobalKey m sub \<and> ms m \<and> CHR ''#'' \<notin> set m
      \<and> CHR 0x0A \<notin> set sub \<and> parts = [t, m, sub]"
  then obtain m sub where h: "t = portsGlobalKey m sub" "ms m" "CHR ''#'' \<notin> set m"
      "CHR 0x0A \<notin> set sub" "parts = [t, m, sub]"
    by blast
  have tw: "takeWhile (\<lambda>c. c \<noteq> CHR ''#'') (m @ CHR ''#'' # sub) = m"
    using h(3) by (subst takeWhile_append2) auto
  have dw: "dropWhile (\<lambda>c. c \<noteq> CHR ''#'') (m @ CHR ''#'' # sub) = CHR ''#'' # sub"
    using h(3) by (subst dropWhile_append2) auto
  show "matchPortsIDReAt ms t = Some parts"
    using h tw dw by (simp add: matchPortsIDReAt_def portsGlobalKey_def)
qed

lemma FindStringSubmatch_Some:
  "FindStringSubmatch ms k = Some parts \<Longrightarrow>
     \<exists>pre t. k = pre @ t \<and> matchPortsIDReAt ms t = Some parts"
proof (induction k)
  case Nil
  then show ?case by auto
next
  case (Cons c cs)
  show ?case
  proof (cases "matchPortsIDReAt ms (c # cs)")
    case None
    then obtain pre t where "cs = pre @ t" "matchPortsIDReAt ms t = Some parts"
      using Cons by auto
    then have "c # cs = (c # pre) @ t \<and> matchPortsIDReAt ms t = Some parts" by simp
    then show ?thesis by blast
  next
    case (Some a)
    then have "c # cs = [] @ (c # cs) \<and> matchPortsIDReAt ms (c # cs) = Some parts"
      using Cons.prems by simp
    then show ?thesis by blast
  qed
qed

lemma FindStringSubmatch_suffix:
  "matchPortsIDReAt ms t = Some parts \<Longrightarrow> FindStringSubmatch ms (pre @ t) \<noteq> None"
proof (induction pre)
  case Nil
  then show ?case by (cases t) auto
next
  case (Cons c pre)
  then show ?case by (auto split: option.splits)
qed

lemma FindStringSubmatch_length:
  "FindStringSubmatch ms k = Some parts \<Longrightarrow> length parts = 3"
  using FindStringSubmatch_Some [of ms k parts] matchPortsIDReAt_iff [of ms _ parts] by auto

text \<open>
  Claim C5, as the specification states it: the key builder produces exactly the
  three-part key \<^verbatim>\<open>m#<owning-entity-id>#<scoping-id>\<close> (the scoping id may be empty), and
  the key parser accepts every key of that shape, returning the machine and subnet
  parts, while rejecting as not valid any key not matching this three-part shape.

  The parser does neither: it rejects the key that the builder makes from machine 0 and
  a scoping id holding a newline, and the key that the builder makes from an owning
  entity that is not a machine id; and it accepts a key that does not start with
  \<^verbatim>\<open>m#\<close>.
\<close>

theorem extractPortsIDParts_counterexample:
  "extractPortsIDParts exampleMachineSnippet (portsGlobalKey ''0'' [CHR 0x0A])
     = Inl (NotValidKey (portsGlobalKey ''0'' [CHR 0x0A]))
   \<and> extractPortsIDParts exampleMachineSnippet (portsGlobalKey ''web'' ''subnet-1'')
     = Inl (NotValidKey (portsGlobalKey ''web'' ''subnet-1''))
   \<and> extractPortsIDParts exampleMachineSnippet (''x'' @ portsGlobalKey ''0'' [])
     = Inr [''m#0#'', ''0'', []]"
  by (simp add: extractPortsIDParts_def matchPortsIDReAt_def portsGlobalKey_def
      exampleMachineSnippet_def)

text \<open>
  Claim C5, amended: the key builder produces exactly the three-part key
  \<^verbatim>\<open>m#<owning-entity-id>#<scoping-id>\<close>. The key parser accepts a key if and only if the
  key ends with a text of that shape whose owning-entity part matches the machine-id
  pattern (and holds no \<^verbatim>\<open>#\<close>) and whose scoping part holds no newline, whatever comes
  before that text; every other key is rejected as not valid; and for the key that the
  builder makes from such parts the parser returns the key, the machine part and the
  subnet part.
\<close>

theorem extractPortsIDParts_shape:
  "portsGlobalKey machineID subnetID = ''m#'' @ machineID @ ''#'' @ subnetID
   \<and> ((\<exists>parts. extractPortsIDParts ms globalKey = Inr parts) \<longleftrightarrow>
        (\<exists>pre m sub. globalKey = pre @ portsGlobalKey m sub
           \<and> ms m \<and> CHR ''#'' \<notin> set m \<and> CHR 0x0A \<notin> set sub))
   \<and> ((\<forall>parts. extractPortsIDParts ms globalKey \<noteq> Inr parts) \<longrightarrow>
         extractPortsIDParts ms globalKey = Inl (NotValidKey globalKey))
   \<and> (ms machineID \<and> CHR ''#'' \<notin> set machineID \<and> CHR 0x0A \<notin> set subnetID \<longrightarrow>
        extractPortsIDParts ms (portsGlobalKey machineID subnetID)
          = Inr [portsGlobalKey machineID subnetID, machineID, subnetID])"
proof (intro conjI)
  show "portsGlobalKey machineID subnetID = ''m#'' @ machineID @ ''#'' @ subnetID"
    by (simp add: portsGlobalKey_def)
next
  show "(\<exists>parts. extractPortsIDParts ms globalKey = Inr parts) \<longleftrightarrow>
        (\<exists>pre m sub. globalKey = pre @ portsGlobalKey m sub
           \<and> ms m \<and> CHR ''#'' \<notin> set m \<and> CHR 0x0A \<notin> set sub)"
  proof
    assume "\<exists>parts. extractPortsIDParts ms globalKey = Inr parts"
    then obtain parts where "FindStringSubmatch ms globalKey = Some parts"
      by (auto simp: extractPortsIDParts_def split: option.splits if_splits)
    then obtain pre t where "globalKey = pre @ t" "matchPortsIDReAt ms t = Some parts"
      using FindStringSubmatch_Some by blast
    then show "\<exists>pre m sub. globalKey = pre @ portsGlobalKey m sub
           \<and> ms m \<and> CHR ''#'' \<notin> set m \<and> CHR 0x0A \<notin> set sub"
      using matchPortsIDReAt_iff [of ms t parts] by blast
  next
    assume "\<exists>pre m sub. globalKey = pre @ portsGlobalKey m sub
           \<and> ms m \<and> CHR ''#'' \<notin> set m \<and> CHR 0x0A \<notin> set sub"
    then obtain pre m sub where h: "globalKey = pre @ portsGlobalKey m sub"
        "ms m" "CHR ''#'' \<notin> set m" "CHR 0x0A \<notin> set sub"
      by blast
    then have "matchPortsIDReAt ms (portsGlobalKey m sub) = Some [portsGlobalKey m sub, m, sub]"
      using matchPortsIDReAt_iff [of ms "portsGlobalKey m sub"] by blast
    then obtain parts where p: "FindStringSubmatch ms globalKey = Some parts"
      using FindStringSubmatch_suffix [of ms _ _ pre] h(1) by fastforce
    then show "\<exists>parts. extractPortsIDParts ms globalKey = Inr parts"
      using FindStringSubmatch_length [OF p] by (simp add: extractPortsIDParts_def)
  qed
next
  show "(\<forall>parts. extractPortsIDParts ms globalKey \<noteq> Inr parts) \<longrightarrow>
         extractPortsIDParts ms globalKey = Inl (NotValidKey globalKey)"
    by (auto simp: extractPortsIDParts_def split: option.splits)
next
  show "ms machineID \<and> CHR ''#'' \<notin> set machineID \<and> CHR 0x0A \<notin> set subnetID \<longrightarrow>
        extractPortsIDParts ms (portsGlobalKey machineID subnetID)
          = Inr [portsGlobalKey machineID subnetID, machineID, subnetID]"
  proof
    assume h: "ms machineID \<and> CHR ''#'' \<notin> set machineID \<and> CHR 0x0A \<notin> set subnetID"
    have m: "matchPortsIDReAt ms (portsGlobalKey machineID subnetID)
        = Some [portsGlobalKey machineID subnetID, machineID, subnetID]"
      using h matchPortsIDReAt_iff [of ms "portsGlobalKey machineID subnetID"] by blast
    have "FindStringSubmatch ms (portsGlobalKey machineID subnetID)
        = Some [portsGlobalKey machineID subnetID, machineID, subnetID]"
      using m by (simp add: portsGlobalKey_def)
    then show "extractPortsIDParts ms (portsGlobalKey machineID subnetID)
          = Inr [portsGlobalKey machineID subnetID, machineID, subnetID]"
      by (simp add: extractPortsIDParts_def)
  qed
qed

theorem extractPortsIDParts_shape_witness:
  "extractPortsIDParts exampleMachineSnippet (portsGlobalKey ''0'' ''subnet-1'')
     = Inr [''m#0#subnet-1'', ''0'', ''subnet-1'']
   \<and> extractPortsIDParts exampleMachineSnippet ''machine-0'' = Inl (NotValidKey ''machine-0'')"
  using extractPortsIDParts_shape [of "''0''" "''subnet-1''" exampleMachineSnippet "''machine-0''"]
  by (simp add: portsGlobalKey_def exampleMachineSnippet_def extractPortsIDParts_def
      matchPortsIDReAt_def)

section \<open>The worker loop\<close>

lemma loop_closed:
  "loop startMachines errDying evs m = None \<Longrightarrow>
     loop startMachines errDying (evs @ WatcherChanges None # rest) m
       = Some (Some MachinesWatcherClosed)"
  by (induction startMachines errDying evs m rule: loop.induct)
    (auto split: prod.splits option.splits)

text \<open>
  Claim C8. Whenever the change-feed channel of the supervision tree closes (the
  watcher's \<^verbatim>\<open>Changes\<close> channel yields not-ok), the main loop returns the non-nil
  terminal error "machines watcher closed", which becomes the failure of the worker,
  rather than treating the closure as an empty batch and continuing: a loop that has not
  returned on the communications before the not-ok receive returns that error at it,
  whatever would follow, and a catacomb that holds no earlier error reports it from
  \<^verbatim>\<open>Wait\<close>.
\<close>

theorem loop_watcher_closed:
  assumes "loop startMachines errDying evs m = None"
  shows "loop startMachines errDying (evs @ WatcherChanges None # rest) m
           = Some (Some MachinesWatcherClosed)
         \<and> (reason c = None \<longrightarrow>
              Wait (invokeWork (loop startMachines errDying (evs @ WatcherChanges None # rest) m) c)
                = Some MachinesWatcherClosed)"
  using loop_closed [OF assms, of rest] by (simp add: Wait_def invokeWork_def Kill_def)

theorem loop_watcher_closed_witness:
  "loop exampleStartMachines (Some ErrDying)
       ([WatcherChanges (Some [''0'', ''1'']), MachineDead (NewMachineTag ''0'')]
          @ WatcherChanges None # [WatcherChanges (Some [''2''])])
       \<lparr>machines = Map.empty\<rparr>
     = Some (Some MachinesWatcherClosed)
   \<and> Wait (invokeWork
        (loop exampleStartMachines (Some ErrDying)
           ([WatcherChanges (Some [''0'', ''1'']), MachineDead (NewMachineTag ''0'')]
              @ WatcherChanges None # [WatcherChanges (Some [''2''])])
           \<lparr>machines = Map.empty\<rparr>)
        \<lparr>dying = False, reason = None\<rparr>)
     = Some MachinesWatcherClosed"
  using loop_watcher_closed [of exampleStartMachines "Some ErrDying"
      "[WatcherChanges (Some [''0'', ''1'']), MachineDead (NewMachineTag ''0'')]"
      "\<lparr>machines = Map.empty\<rparr>" "[WatcherChanges (Some [''2''])]"
      "\<lparr>dying = False, reason = None\<rparr>"]
  by (simp add: exampleStartMachines_def)

end
